theory Spec2Isabelle
  imports Complex_Main
begin

section \<open>Exceptions\<close>

text \<open>
  The Python exceptions that the modelled code raises or handles. \<open>OtherError\<close> stands for
  any exception class that is not one of the first three (for instance a transport error of
  the client library); it carries the class name.
\<close>

datatype exn = KeyboardInterrupt | AssertionError | KeyError string | OtherError string

section \<open>listeners.py: the event accumulators\<close>

text \<open>
  \<open>EventFactory\<close> holds the flag \<open>new_event\<close> (a \<open>threading.Event\<close>, modelled by whether it is
  set) and the dictionary \<open>event_data\<close>. \<open>MouseListener\<close> adds \<open>pos\<close>, which is \<open>None\<close> or a pair.
  \<open>KeyboardListener\<close> adds no field of its own (its logger is not modelled).
  The callbacks are modelled one at a time: each runs to completion before the next call.
\<close>

record EventFactory =
  new_event :: bool
  event_data :: "string \<rightharpoonup> int"

record MouseListener = EventFactory +
  pos :: "(int \<times> int) option"

text \<open>\<open>KeyboardListener._reset_data\<close>: \<open>self.event_data = {"presses": 0}\<close>.\<close>

definition kb_reset_data :: "'a EventFactory_scheme \<Rightarrow> 'a EventFactory_scheme" where
  "kb_reset_data self = self\<lparr>event_data := [''presses'' \<mapsto> 0]\<rparr>"

text \<open>
  \<open>MouseListener._reset_data\<close>: a fresh \<open>defaultdict(int)\<close>, updated with the five counters
  at zero.
\<close>

definition mouse_reset_data :: "'a EventFactory_scheme \<Rightarrow> 'a EventFactory_scheme" where
  "mouse_reset_data self =
     self\<lparr>event_data := [''clicks'' \<mapsto> 0, ''deltaX'' \<mapsto> 0, ''deltaY'' \<mapsto> 0,
                          ''scrollX'' \<mapsto> 0, ''scrollY'' \<mapsto> 0]\<rparr>"

text \<open>
  \<open>EventFactory.next_event\<close>: clear the flag, take the dictionary, call the subclass's
  \<open>_reset_data\<close> (the first argument here), return the dictionary taken. The result is the
  returned dictionary and the object afterwards.
\<close>

definition next_event ::
  "('a EventFactory_scheme \<Rightarrow> 'a EventFactory_scheme) \<Rightarrow> 'a EventFactory_scheme
     \<Rightarrow> (string \<rightharpoonup> int) \<times> 'a EventFactory_scheme" where
  "next_event reset_data self =
     (let self1 = self\<lparr>new_event := False\<rparr>;
          data = event_data self1;
          self2 = reset_data self1
      in (data, self2))"

definition has_new_event :: "'a EventFactory_scheme \<Rightarrow> bool" where
  "has_new_event self = new_event self"

text \<open>
  \<open>EventFactory.__init__\<close>: a fresh (unset) flag, then \<open>_reset_data\<close>. \<open>MouseListener.__init__\<close>
  sets \<open>pos = None\<close> afterwards.
\<close>

definition KeyboardListener_init :: EventFactory where
  "KeyboardListener_init = kb_reset_data \<lparr>new_event = False, event_data = Map.empty\<rparr>"

definition MouseListener_init :: MouseListener where
  "MouseListener_init =
     (mouse_reset_data \<lparr>new_event = False, event_data = Map.empty, pos = None\<rparr>)\<lparr>pos := None\<rparr>"

text \<open>
  \<open>KeyboardListener.on_press\<close>: \<open>self.event_data["presses"] += 1\<close> on a plain dictionary, which
  raises \<open>KeyError\<close> when the key is absent, then sets the flag. \<open>on_release\<close> does nothing.
\<close>

definition kb_on_press :: "EventFactory \<Rightarrow> 'k \<Rightarrow> exn + EventFactory" where
  "kb_on_press self key =
     (case event_data self ''presses'' of
        None \<Rightarrow> Inl (KeyError ''presses'')
      | Some n \<Rightarrow> Inr (self\<lparr>event_data := (event_data self)(''presses'' \<mapsto> n + 1),
                            new_event := True\<rparr>))"

definition kb_on_release :: "EventFactory \<Rightarrow> 'k \<Rightarrow> exn + EventFactory" where
  "kb_on_release self key = Inr self"

text \<open>Reading a key of a \<open>defaultdict(int)\<close>: an absent key reads as 0.\<close>

definition dd_get :: "(string \<rightharpoonup> int) \<Rightarrow> string \<Rightarrow> int" where
  "dd_get d k = (case d k of None \<Rightarrow> 0 | Some v \<Rightarrow> v)"

text \<open>\<open>d[k] += v\<close> on a \<open>defaultdict(int)\<close>.\<close>

definition dd_add :: "(string \<rightharpoonup> int) \<Rightarrow> string \<Rightarrow> int \<Rightarrow> (string \<rightharpoonup> int)" where
  "dd_add d k v = d(k \<mapsto> dd_get d k + v)"

text \<open>
  \<open>MouseListener.on_move\<close>. \<open>not self.pos\<close> holds only when \<open>pos\<close> is \<open>None\<close>: a pair is a
  non-empty tuple, which is true whatever its components, \<open>(0, 0)\<close> included.
\<close>

definition on_move :: "MouseListener \<Rightarrow> int \<Rightarrow> int \<Rightarrow> MouseListener" where
  "on_move self x y =
     (let newpos = (x, y);
          self1 = (case pos self of None \<Rightarrow> self\<lparr>pos := Some newpos\<rparr> | Some p \<Rightarrow> self);
          p = the (pos self1);
          delta = (fst p - fst newpos, snd p - snd newpos);
          self2 = self1\<lparr>event_data := dd_add (event_data self1) ''deltaX'' \<bar>fst delta\<bar>\<rparr>;
          self3 = self2\<lparr>event_data := dd_add (event_data self2) ''deltaY'' \<bar>snd delta\<bar>\<rparr>
      in self3\<lparr>pos := Some newpos, new_event := True\<rparr>)"

text \<open>\<open>MouseListener.on_click\<close>: only a press (\<open>down\<close>) counts.\<close>

definition on_click :: "MouseListener \<Rightarrow> int \<Rightarrow> int \<Rightarrow> 'b \<Rightarrow> bool \<Rightarrow> MouseListener" where
  "on_click self x y button down =
     (if down
      then self\<lparr>event_data := dd_add (event_data self) ''clicks'' 1, new_event := True\<rparr>
      else self)"

text \<open>\<open>MouseListener.on_scroll\<close>.\<close>

definition on_scroll :: "MouseListener \<Rightarrow> int \<Rightarrow> int \<Rightarrow> int \<Rightarrow> int \<Rightarrow> MouseListener" where
  "on_scroll self x y scrollx scrolly =
     (let self1 = self\<lparr>event_data := dd_add (event_data self) ''scrollX'' \<bar>scrollx\<bar>\<rparr>;
          self2 = self1\<lparr>event_data := dd_add (event_data self1) ''scrollY'' \<bar>scrolly\<bar>\<rparr>
      in self2\<lparr>new_event := True\<rparr>)"

section \<open>afk.py: settings\<close>

text \<open>
  Numbers of seconds (\<open>timeout\<close>, \<open>poll_time\<close>, the idle time sampled) are Python ints or
  floats; they are modelled by the rational number they denote (\<open>nan\<close> and the infinities
  are outside the model, and so is the rounding of float arithmetic).
  The configuration section is a dictionary from names to numbers.
\<close>

record Settings =
  timeout :: rat
  poll_time :: rat

text \<open>
  The defaults of config.py (\<open>default_config\<close>): the section \<open>sd-watcher-afk\<close>, or
  \<open>sd-watcher-afk-testing\<close> when testing.
\<close>

definition default_config :: "bool \<Rightarrow> (string \<rightharpoonup> rat)" where
  "default_config testing =
     (if testing then [''timeout'' \<mapsto> 20, ''poll_time'' \<mapsto> 1]
      else [''timeout'' \<mapsto> 300, ''poll_time'' \<mapsto> 5])"

text \<open>Python truth value of an optional number: \<open>None\<close> and zero are false.\<close>

definition truthy :: "rat option \<Rightarrow> bool" where
  "truthy a = (case a of None \<Rightarrow> False | Some x \<Rightarrow> x \<noteq> 0)"

text \<open>
  \<open>arg or config_section[key]\<close>: the argument when it is true, else the subscript, which
  raises \<open>KeyError\<close> on an absent key (and is not evaluated when the argument is true).
\<close>

definition arg_or_config :: "rat option \<Rightarrow> (string \<rightharpoonup> rat) \<Rightarrow> string \<Rightarrow> exn + rat" where
  "arg_or_config a config_section key =
     (if truthy a then Inr (the a)
      else (case config_section key of None \<Rightarrow> Inl (KeyError key) | Some v \<Rightarrow> Inr v))"

text \<open>\<open>Settings.__init__\<close>; the \<open>assert\<close> is taken as enabled.\<close>

definition Settings_init :: "(string \<rightharpoonup> rat) \<Rightarrow> rat option \<Rightarrow> rat option \<Rightarrow> exn + Settings" where
  "Settings_init config_section timeout_arg poll_time_arg =
     (case arg_or_config timeout_arg config_section ''timeout'' of
        Inl e \<Rightarrow> Inl e
      | Inr t \<Rightarrow>
         (case arg_or_config poll_time_arg config_section ''poll_time'' of
            Inl e \<Rightarrow> Inl e
          | Inr p \<Rightarrow> if t \<ge> p then Inr \<lparr>timeout = t, poll_time = p\<rparr> else Inl AssertionError))"

section \<open>afk.py: the watcher\<close>

text \<open>
  Instants (\<open>datetime\<close>) are whole microseconds since the epoch and durations (\<open>timedelta\<close>)
  whole microseconds, the resolution of both Python types. \<open>timedelta(seconds=s)\<close> rounds
  to the nearest microsecond, ties to even.
\<close>

definition round_half_even :: "rat \<Rightarrow> int" where
  "round_half_even x =
     (let f = \<lfloor>x\<rfloor>; d = x - of_int f
      in if d < 1 / 2 then f else if 1 / 2 < d then f + 1 else if even f then f else f + 1)"

definition timedelta_seconds :: "rat \<Rightarrow> int" where
  "timedelta_seconds s = round_half_even (s * 1000000)"

definition td1ms :: int where
  "td1ms = 1000"

text \<open>
  The event of the client library and one call of \<open>client.heartbeat\<close>, with its arguments.
\<close>

record Event =
  timestamp :: int
  duration :: rat
  data :: "string \<rightharpoonup> string"

record heartbeat_call =
  hc_bucket :: string
  hc_event :: Event
  hc_pulsetime :: rat
  hc_queued :: bool

record create_bucket_call =
  cb_bucket :: string
  cb_eventtype :: string
  cb_queued :: bool

text \<open>
  The watcher object: its settings and its bucket name, which is the client's
  \<open>client_name\<close>. The command-line arguments it reads are \<open>timeout\<close> and \<open>poll_time\<close>.
\<close>

record AFKWatcher =
  settings :: Settings
  bucketname :: string

record args =
  arg_timeout :: "rat option"
  arg_poll_time :: "rat option"

text \<open>
  \<open>AFKWatcher.__init__\<close>. \<open>load_config\<close> and the client's constructor belong to other
  packages: the section loaded and the client's name are parameters.
\<close>

definition AFKWatcher_init :: "(string \<rightharpoonup> rat) \<Rightarrow> args \<Rightarrow> string \<Rightarrow> exn + AFKWatcher" where
  "AFKWatcher_init config_section a client_name =
     (case Settings_init config_section (arg_timeout a) (arg_poll_time a) of
        Inl e \<Rightarrow> Inl e
      | Inr s \<Rightarrow> Inr \<lparr>settings = s, bucketname = client_name\<rparr>)"

text \<open>
  \<open>AFKWatcher.ping\<close>: the call of \<open>client.heartbeat\<close> that it makes. The third argument is
  \<open>duration\<close>, \<open>None\<close> when it is left out (default 0).
\<close>

definition ping :: "AFKWatcher \<Rightarrow> bool \<Rightarrow> int \<Rightarrow> rat option \<Rightarrow> heartbeat_call" where
  "ping self afk ts dur =
     (let d = [''status'' \<mapsto> (if afk then ''afk'' else ''not-afk''),
               ''app'' \<mapsto> ''afk'', ''title'' \<mapsto> ''Idle time''];
          e = \<lparr>timestamp = ts, duration = (case dur of None \<Rightarrow> 0 | Some x \<Rightarrow> x), data = d\<rparr>;
          pulsetime = timeout (settings self) + poll_time (settings self)
      in \<lparr>hc_bucket = bucketname self, hc_event = e, hc_pulsetime = pulsetime, hc_queued = True\<rparr>)"

definition hc_status :: "heartbeat_call \<Rightarrow> string option" where
  "hc_status c = data (hc_event c) ''status''"

text \<open>
  What one iteration of the loop meets in its surroundings: the parent's process id, the
  clock, what \<open>seconds_since_last_input\<close> returns or raises, whether the first and the
  second call of \<open>client.heartbeat\<close> raise, and whether \<open>sleep\<close> is interrupted.
\<close>

record tick_env =
  ppid :: int
  now :: int
  sample :: "exn + rat"
  hb1 :: "exn option"
  hb2 :: "exn option"
  sleep_exn :: "exn option"

text \<open>
  How the body of the \<open>try\<close> ends: it runs to its end, it reaches the \<open>break\<close> of the
  parent check, or it raises. With it go the value of the variable \<open>afk\<close> at that point and
  the calls of \<open>client.heartbeat\<close> made, in order.
\<close>

datatype outcome = Completed | ParentDied | Raised exn

type_synonym body_result = "outcome \<times> bool \<times> heartbeat_call list"

text \<open>
  One \<open>self.ping(...)\<close> followed by the rest \<open>k\<close> of the body: the call is made; when it
  raises, the rest does not run. \<open>afk\<close> is the variable's value at the call.
\<close>

definition ping_then :: "bool \<Rightarrow> heartbeat_call \<Rightarrow> exn option \<Rightarrow> body_result \<Rightarrow> body_result" where
  "ping_then afk c r k =
     (case r of
        Some e \<Rightarrow> (Raised e, afk, [c])
      | None \<Rightarrow> (fst k, fst (snd k), c # snd (snd k)))"

text \<open>The closing \<open>sleep(self.settings.poll_time)\<close>.\<close>

definition sleep_then :: "exn option \<Rightarrow> bool \<Rightarrow> body_result" where
  "sleep_then r afk = (case r of Some e \<Rightarrow> (Raised e, afk, []) | None \<Rightarrow> (Completed, afk, []))"

text \<open>
  The body of the \<open>try\<close> in \<open>heartbeat_loop\<close>, for the platform name \<open>sys\<close> (the module's
  \<open>system\<close>) and the value \<open>afk\<close> of the loop variable on entry.
\<close>

definition loop_body :: "string \<Rightarrow> AFKWatcher \<Rightarrow> bool \<Rightarrow> tick_env \<Rightarrow> body_result" where
  "loop_body sys self afk env =
     (if sys \<in> {''Darwin'', ''Linux''} \<and> ppid env = 1 then (ParentDied, afk, [])
      else
        (case sample env of
           Inl e \<Rightarrow> (Raised e, afk, [])
         | Inr seconds_since_input \<Rightarrow>
            (let last_input = now env - timedelta_seconds seconds_since_input in
             if afk \<and> seconds_since_input < timeout (settings self) then
               ping_then afk (ping self afk last_input None) (hb1 env)
                 (ping_then False (ping self False (last_input + td1ms) None) (hb2 env)
                    (sleep_then (sleep_exn env) False))
             else if \<not> afk \<and> seconds_since_input \<ge> timeout (settings self) then
               ping_then afk (ping self afk last_input None) (hb1 env)
                 (ping_then True (ping self True (now env) None) (hb2 env)
                    (sleep_then (sleep_exn env) True))
             else if afk then
               ping_then afk (ping self afk (now env) None) (hb1 env)
                 (sleep_then (sleep_exn env) afk)
             else
               ping_then afk (ping self afk last_input None) (hb1 env)
                 (sleep_then (sleep_exn env) afk))))"

text \<open>
  The \<open>while True\<close> loop with its handler \<open>except KeyboardInterrupt: break\<close>, run against the
  surroundings of its successive iterations. The loop has no exit of its own, so the list
  bounds the run: \<open>Running\<close> says that the loop is still going when the list is used up,
  \<open>Returned\<close> that it left by a \<open>break\<close>, \<open>Escaped e\<close> that \<open>e\<close> left it unhandled. The log
  has one entry for each iteration begun: the value of \<open>afk\<close> at its end and the calls of
  \<open>client.heartbeat\<close> that it made.
\<close>

datatype loop_end = Running | Returned | Escaped exn

fun loop_from ::
  "string \<Rightarrow> AFKWatcher \<Rightarrow> bool \<Rightarrow> tick_env list \<Rightarrow> loop_end \<times> (bool \<times> heartbeat_call list) list" where
  "loop_from sys self afk [] = (Running, [])"
| "loop_from sys self afk (env # envs) =
     (case loop_body sys self afk env of
        (Completed, afk', cs) \<Rightarrow>
          (case loop_from sys self afk' envs of (r, rest) \<Rightarrow> (r, (afk', cs) # rest))
      | (ParentDied, afk', cs) \<Rightarrow> (Returned, [(afk', cs)])
      | (Raised e, afk', cs) \<Rightarrow>
          (if e = KeyboardInterrupt then Returned else Escaped e, [(afk', cs)]))"

text \<open>\<open>heartbeat_loop\<close> starts with \<open>afk = False\<close>.\<close>

definition heartbeat_loop ::
  "string \<Rightarrow> AFKWatcher \<Rightarrow> tick_env list \<Rightarrow> loop_end \<times> (bool \<times> heartbeat_call list) list" where
  "heartbeat_loop sys self envs = loop_from sys self False envs"

text \<open>
  \<open>AFKWatcher.run\<close>: create the bucket, then the loop. \<open>main\<close> of \<open>__main__.py\<close>: build the
  watcher, then \<open>run\<close>; an exception of the constructor ends the program before \<open>run\<close>.
\<close>

definition run ::
  "string \<Rightarrow> AFKWatcher \<Rightarrow> tick_env list
     \<Rightarrow> create_bucket_call \<times> loop_end \<times> (bool \<times> heartbeat_call list) list" where
  "run sys self envs =
     (\<lparr>cb_bucket = bucketname self, cb_eventtype = ''afkstatus'', cb_queued = True\<rparr>,
      heartbeat_loop sys self envs)"

definition main ::
  "string \<Rightarrow> (string \<rightharpoonup> rat) \<Rightarrow> args \<Rightarrow> string \<Rightarrow> tick_env list
     \<Rightarrow> exn + create_bucket_call \<times> loop_end \<times> (bool \<times> heartbeat_call list) list" where
  "main sys config_section a client_name envs =
     (case AFKWatcher_init config_section a client_name of
        Inl e \<Rightarrow> Inl e
      | Inr watcher \<Rightarrow> Inr (run sys watcher envs))"

text \<open>
  An iteration in which nothing raises and the parent is alive, at clock \<open>n\<close> with idle
  time \<open>s\<close>.
\<close>

definition quiet_tick :: "int \<Rightarrow> rat \<Rightarrow> tick_env" where
  "quiet_tick n s = \<lparr>ppid = 2, now = n, sample = Inr s, hb1 = None, hb2 = None, sleep_exn = None\<rparr>"

text \<open>A watcher with the default settings, for the concrete runs below.\<close>

definition example_watcher :: AFKWatcher where
  "example_watcher =
     \<lparr>settings = \<lparr>timeout = 300, poll_time = 5\<rparr>, bucketname = ''sd-watcher-afk''\<rparr>"

section \<open>Properties of the event accumulators\<close>

text \<open>
  Claim C7. For the keyboard and for the mouse accumulator, in any state: after
  \<open>next_event\<close> the flag read by \<open>has_new_event\<close> is false, the dictionary is the reset one
  (\<open>presses = 0\<close>; \<open>clicks = deltaX = deltaY = scrollX = scrollY = 0\<close>), and the value
  returned is the dictionary as it was before the reset.
\<close>

theorem next_event_drains_and_resets:
  fixes k :: EventFactory and m :: MouseListener
  shows "has_new_event (snd (next_event kb_reset_data k)) = False
       \<and> event_data (snd (next_event kb_reset_data k)) = [''presses'' \<mapsto> 0]
       \<and> fst (next_event kb_reset_data k) = event_data k
       \<and> has_new_event (snd (next_event mouse_reset_data m)) = False
       \<and> event_data (snd (next_event mouse_reset_data m))
           = [''clicks'' \<mapsto> 0, ''deltaX'' \<mapsto> 0, ''deltaY'' \<mapsto> 0, ''scrollX'' \<mapsto> 0, ''scrollY'' \<mapsto> 0]
       \<and> fst (next_event mouse_reset_data m) = event_data m"
  by (simp add: next_event_def has_new_event_def kb_reset_data_def mouse_reset_data_def)

text \<open>
  Claim C9. A fresh mouse accumulator that receives the moves \<open>(0,0)\<close>, \<open>(3,4)\<close>, \<open>(1,4)\<close> has
  \<open>deltaX = 5\<close> and \<open>deltaY = 4\<close>. In general each move adds, per axis, the absolute
  difference between the previous position (the new one itself on the first move) and
  the new position.
\<close>

theorem on_move_accumulates_absolute_deltas:
  "dd_get (event_data (on_move (on_move (on_move MouseListener_init 0 0) 3 4) 1 4)) ''deltaX'' = 5
 \<and> dd_get (event_data (on_move (on_move (on_move MouseListener_init 0 0) 3 4) 1 4)) ''deltaY'' = 4
 \<and> dd_get (event_data (on_move self x y)) ''deltaX''
     = dd_get (event_data self) ''deltaX''
       + \<bar>fst (case pos self of None \<Rightarrow> (x, y) | Some p \<Rightarrow> p) - x\<bar>
 \<and> dd_get (event_data (on_move self x y)) ''deltaY''
     = dd_get (event_data self) ''deltaY''
       + \<bar>snd (case pos self of None \<Rightarrow> (x, y) | Some p \<Rightarrow> p) - y\<bar>"
  by (simp add: on_move_def MouseListener_init_def mouse_reset_data_def dd_add_def dd_get_def
           Let_def split: option.split)

section \<open>Properties of the state machine\<close>

lemmas body_defs = loop_body_def ping_then_def sleep_then_def Let_def

text \<open>
  Claim C1, as the code has it. In an iteration entered with \<open>afk = False\<close> whose sample
  \<open>s\<close> is at least the timeout (the parent alive, nothing raising), the variable becomes
  \<open>True\<close> and exactly two heartbeats are sent: the first still carries the old status
  \<open>not-afk\<close>, at \<open>now - s\<close>; the second carries \<open>afk\<close>, at \<open>now\<close>.
\<close>

theorem became_afk_tick:
  assumes "\<not> (sys \<in> {''Darwin'', ''Linux''} \<and> ppid env = 1)"
      and "sample env = Inr s" and "timeout (settings self) \<le> s"
      and "hb1 env = None" and "hb2 env = None" and "sleep_exn env = None"
  shows "loop_body sys self False env =
           (Completed, True,
            [ping self False (now env - timedelta_seconds s) None,
             ping self True (now env) None])
       \<and> hc_status (ping self False (now env - timedelta_seconds s) None) = Some ''not-afk''
       \<and> hc_status (ping self True (now env) None) = Some ''afk''
       \<and> timestamp (hc_event (ping self False (now env - timedelta_seconds s) None))
           = now env - timedelta_seconds s
       \<and> timestamp (hc_event (ping self True (now env) None)) = now env"
  using assms
  by (simp add: body_defs hc_status_def ping_def)

theorem became_afk_tick_witness:
  "loop_body ''Linux'' example_watcher False (quiet_tick 1000000000 310) =
     (Completed, True,
      [ping example_watcher False 690000000 None, ping example_watcher True 1000000000 None])"
  using became_afk_tick [of "''Linux''" "quiet_tick 1000000000 310" 310 example_watcher]
  by (simp add: quiet_tick_def example_watcher_def timedelta_seconds_def round_half_even_def)

text \<open>
  The claim as written asks for \<open>afk=true\<close> on both heartbeats. With timeout 300, at clock
  1000 s and an idle time of 310 s, the first heartbeat has status \<open>not-afk\<close>.
\<close>

theorem became_afk_first_status_counterexample:
  "timeout (settings example_watcher) \<le> 310
 \<and> map hc_status (snd (snd (loop_body ''Linux'' example_watcher False (quiet_tick 1000000000 310))))
     = [Some ''not-afk'', Some ''afk'']
 \<and> map hc_status (snd (snd (loop_body ''Linux'' example_watcher False (quiet_tick 1000000000 310))))
     \<noteq> [Some ''afk'', Some ''afk'']"
  by (simp add: body_defs hc_status_def ping_def quiet_tick_def example_watcher_def)

text \<open>
  Claim C2, as the code has it. In an iteration entered with \<open>afk = True\<close> whose sample \<open>s\<close>
  is below the timeout (the parent alive, nothing raising), the variable becomes \<open>False\<close>
  and exactly two heartbeats are sent: the first still carries the old status \<open>afk\<close>, at
  \<open>now - s\<close>; the second carries \<open>not-afk\<close>, 1000 microseconds (1 ms) later.
\<close>

theorem no_longer_afk_tick:
  assumes "\<not> (sys \<in> {''Darwin'', ''Linux''} \<and> ppid env = 1)"
      and "sample env = Inr s" and "s < timeout (settings self)"
      and "hb1 env = None" and "hb2 env = None" and "sleep_exn env = None"
  shows "loop_body sys self True env =
           (Completed, False,
            [ping self True (now env - timedelta_seconds s) None,
             ping self False (now env - timedelta_seconds s + td1ms) None])
       \<and> hc_status (ping self True (now env - timedelta_seconds s) None) = Some ''afk''
       \<and> hc_status (ping self False (now env - timedelta_seconds s + td1ms) None)
           = Some ''not-afk''
       \<and> timestamp (hc_event (ping self True (now env - timedelta_seconds s) None))
           = now env - timedelta_seconds s
       \<and> timestamp (hc_event (ping self False (now env - timedelta_seconds s + td1ms) None))
           - timestamp (hc_event (ping self True (now env - timedelta_seconds s) None)) = 1000"
  using assms
  by (simp add: body_defs hc_status_def ping_def td1ms_def)

theorem no_longer_afk_tick_witness:
  "loop_body ''Linux'' example_watcher True (quiet_tick 1000000000 0) =
     (Completed, False,
      [ping example_watcher True 1000000000 None, ping example_watcher False 1000001000 None])"
  using no_longer_afk_tick [of "''Linux''" "quiet_tick 1000000000 0" 0 example_watcher]
  by (simp add: quiet_tick_def example_watcher_def timedelta_seconds_def round_half_even_def
        td1ms_def)

text \<open>
  The claim as written asks for \<open>afk=false\<close> on both heartbeats. With timeout 300, at clock
  1000 s and an idle time of 0 s, the first heartbeat has status \<open>afk\<close>.
\<close>

theorem no_longer_afk_first_status_counterexample:
  "0 < timeout (settings example_watcher)
 \<and> map hc_status (snd (snd (loop_body ''Linux'' example_watcher True (quiet_tick 1000000000 0))))
     = [Some ''afk'', Some ''not-afk'']
 \<and> map hc_status (snd (snd (loop_body ''Linux'' example_watcher True (quiet_tick 1000000000 0))))
     \<noteq> [Some ''not-afk'', Some ''not-afk'']"
  by (simp add: body_defs hc_status_def ping_def quiet_tick_def example_watcher_def)

text \<open>
  Claim C3, as the code has it. The loop handles \<open>KeyboardInterrupt\<close> only. When the
  sampling, a heartbeat submission or the sleep of an iteration raises \<open>e\<close> (the parent
  alive), no further iteration runs: the loop returns when \<open>e\<close> is \<open>KeyboardInterrupt\<close>,
  and any other \<open>e\<close> leaves the loop unhandled.
\<close>

theorem raise_in_tick_ends_loop:
  assumes alive: "\<not> (sys \<in> {''Darwin'', ''Linux''} \<and> ppid env = 1)"
      and raises: "sample env = Inl e
         \<or> (\<exists>s. sample env = Inr s \<and> hb1 env = Some e)
         \<or> (\<exists>s. sample env = Inr s \<and> hb1 env = None
                \<and> (afk \<longleftrightarrow> s < timeout (settings self)) \<and> hb2 env = Some e)
         \<or> (\<exists>s. sample env = Inr s \<and> hb1 env = None
                \<and> ((afk \<longleftrightarrow> s < timeout (settings self)) \<longrightarrow> hb2 env = None)
                \<and> sleep_exn env = Some e)"
  shows "fst (loop_from sys self afk (env # envs))
           = (if e = KeyboardInterrupt then Returned else Escaped e)
       \<and> length (snd (loop_from sys self afk (env # envs))) = 1"
proof -
  have "fst (loop_body sys self afk env) = Raised e"
    using alive raises
    by (cases "hb2 env"; cases afk; cases "sample env")
       (auto simp: body_defs)
  then show ?thesis
    by (cases "loop_body sys self afk env") simp
qed

theorem raise_in_tick_ends_loop_witness:
  "fst (loop_from ''Linux'' example_watcher True
          [(quiet_tick 1000000 0)\<lparr>hb2 := Some KeyboardInterrupt\<rparr>, quiet_tick 6000000 0])
     = Returned
 \<and> fst (loop_from ''Linux'' example_watcher True
          [(quiet_tick 1000000 0)\<lparr>hb2 := Some (OtherError ''ConnectionError'')\<rparr>,
           quiet_tick 6000000 0])
     = Escaped (OtherError ''ConnectionError'')"
  using raise_in_tick_ends_loop [of "''Linux''"
          "(quiet_tick 1000000 0)\<lparr>hb2 := Some KeyboardInterrupt\<rparr>" KeyboardInterrupt True
          example_watcher "[quiet_tick 6000000 0]"]
        raise_in_tick_ends_loop [of "''Linux''"
          "(quiet_tick 1000000 0)\<lparr>hb2 := Some (OtherError ''ConnectionError'')\<rparr>"
          "OtherError ''ConnectionError''" True example_watcher "[quiet_tick 6000000 0]"]
  by (simp add: quiet_tick_def example_watcher_def)

text \<open>
  The claim as written says that no such exception leaves the loop and that the next
  iteration follows. Here the sampling of the first of two iterations raises an
  \<open>OSError\<close>: it leaves the loop, and the second iteration never begins.
\<close>

theorem other_exception_escapes_counterexample:
  "heartbeat_loop ''Linux'' example_watcher
     [(quiet_tick 1000000 0)\<lparr>sample := Inl (OtherError ''OSError'')\<rparr>, quiet_tick 6000000 0]
   = (Escaped (OtherError ''OSError''), [(False, [])])"
  by (simp add: heartbeat_loop_def body_defs quiet_tick_def)

text \<open>
  Claim C4. With timeout 300 and poll time 5 (the settings built from the default
  configuration), the loop fed the idle times 0, 0, 310, 310, 0 in five quiet iterations,
  at any clock readings, has \<open>afk\<close> equal to False, False, True, True, False after them and
  sends 1, 1, 2, 1, 2 heartbeats in them.
\<close>

theorem scenario_five_ticks:
  "map fst (snd (heartbeat_loop sys
      \<lparr>settings = \<lparr>timeout = 300, poll_time = 5\<rparr>, bucketname = b\<rparr>
      [quiet_tick n1 0, quiet_tick n2 0, quiet_tick n3 310, quiet_tick n4 310, quiet_tick n5 0]))
     = [False, False, True, True, False]
 \<and> map (length \<circ> snd) (snd (heartbeat_loop sys
      \<lparr>settings = \<lparr>timeout = 300, poll_time = 5\<rparr>, bucketname = b\<rparr>
      [quiet_tick n1 0, quiet_tick n2 0, quiet_tick n3 310, quiet_tick n4 310, quiet_tick n5 0]))
     = [1, 1, 2, 1, 2]
 \<and> Settings_init (default_config False) None None = Inr \<lparr>timeout = 300, poll_time = 5\<rparr>"
  by (simp add: heartbeat_loop_def body_defs quiet_tick_def Settings_init_def arg_or_config_def
        truthy_def default_config_def)

text \<open>
  Claim C5. Over any run of iterations that all sample the same idle time \<open>s\<close> (the parent
  alive, nothing raising), entered with \<open>afk\<close> true exactly when \<open>s\<close> is at least the
  timeout: \<open>afk\<close> keeps its value after every iteration, and every iteration sends exactly
  one heartbeat, \<open>(afk=true, now)\<close> when \<open>afk\<close> and \<open>(afk=false, now - s)\<close> otherwise.
\<close>

theorem no_transition_ticks:
  assumes ticks: "\<forall>env \<in> set envs. \<not> (sys \<in> {''Darwin'', ''Linux''} \<and> ppid env = 1)
                     \<and> sample env = Inr s \<and> hb1 env = None \<and> sleep_exn env = None"
      and same: "afk \<longleftrightarrow> timeout (settings self) \<le> s"
  shows "loop_from sys self afk envs =
           (Running,
            map (\<lambda>env. (afk, [ping self afk (if afk then now env
                                              else now env - timedelta_seconds s) None])) envs)"
  using ticks
proof (induction envs)
  case Nil
  then show ?case by simp
next
  case (Cons env envs)
  have "loop_body sys self afk env =
          (Completed, afk,
           [ping self afk (if afk then now env else now env - timedelta_seconds s) None])"
    using Cons.prems same by (auto simp: body_defs)
  moreover have "loop_from sys self afk envs =
           (Running,
            map (\<lambda>env. (afk, [ping self afk (if afk then now env
                                              else now env - timedelta_seconds s) None])) envs)"
  proof (rule Cons.IH)
    show "\<forall>env \<in> set envs. \<not> (sys \<in> {''Darwin'', ''Linux''} \<and> ppid env = 1)
                     \<and> sample env = Inr s \<and> hb1 env = None \<and> sleep_exn env = None"
      using Cons.prems by simp
  qed
  ultimately show ?case by simp
qed

theorem no_transition_ticks_witness:
  "loop_from ''Linux'' example_watcher True
       [quiet_tick 1000000000 310, quiet_tick 1005000000 310]
     = (Running, [(True, [ping example_watcher True 1000000000 None]),
                  (True, [ping example_watcher True 1005000000 None])])
 \<and> loop_from ''Linux'' example_watcher False
       [quiet_tick 1000000000 2, quiet_tick 1005000000 2]
     = (Running, [(False, [ping example_watcher False 998000000 None]),
                  (False, [ping example_watcher False 1003000000 None])])"
  using no_transition_ticks [of "[quiet_tick 1000000000 310, quiet_tick 1005000000 310]"
          "''Linux''" 310 True example_watcher]
        no_transition_ticks [of "[quiet_tick 1000000000 2, quiet_tick 1005000000 2]"
          "''Linux''" 2 False example_watcher]
  by (simp add: quiet_tick_def example_watcher_def timedelta_seconds_def round_half_even_def)

section \<open>Properties of the settings\<close>

lemma arg_or_config_zero: "arg_or_config (Some 0) c k = arg_or_config None c k"
  by (simp add: arg_or_config_def truthy_def)

lemma arg_or_config_nonzero: "t \<noteq> 0 \<Longrightarrow> arg_or_config (Some t) c k = Inr t"
  by (simp add: arg_or_config_def truthy_def)

lemma arg_or_config_None: "arg_or_config None c k = Inr v \<Longrightarrow> c k = Some v"
  by (simp add: arg_or_config_def truthy_def split: option.splits)

lemma Settings_init_Inr:
  "Settings_init c a b = Inr s \<Longrightarrow>
     arg_or_config a c ''timeout'' = Inr (timeout s)
   \<and> arg_or_config b c ''poll_time'' = Inr (poll_time s)"
  by (cases "arg_or_config a c ''timeout''"; cases "arg_or_config b c ''poll_time''")
     (auto simp: Settings_init_def split: if_splits)

text \<open>
  Claim C6. Let \<open>t\<close> and \<open>p\<close> be the timeout and the poll time that the constructor arrives
  at (the argument, or the configuration's value when the argument is absent or zero).
  When \<open>t < p\<close> the constructor raises \<open>AssertionError\<close>, so does the program, and neither
  the bucket is created nor the loop begun; when \<open>t \<ge> p\<close> the constructor returns the
  settings \<open>t\<close>, \<open>p\<close> and the program goes on to \<open>run\<close>. With the arguments 5 and 10 it
  raises whatever the configuration.
\<close>

theorem Settings_init_checks_timeout:
  assumes "arg_or_config timeout_arg config_section ''timeout'' = Inr t"
      and "arg_or_config poll_time_arg config_section ''poll_time'' = Inr p"
  shows "(t < p \<longrightarrow>
            Settings_init config_section timeout_arg poll_time_arg = Inl AssertionError
          \<and> main sys config_section \<lparr>arg_timeout = timeout_arg, arg_poll_time = poll_time_arg\<rparr>
               client_name envs = Inl AssertionError)
       \<and> (p \<le> t \<longrightarrow>
            Settings_init config_section timeout_arg poll_time_arg
              = Inr \<lparr>timeout = t, poll_time = p\<rparr>
          \<and> main sys config_section \<lparr>arg_timeout = timeout_arg, arg_poll_time = poll_time_arg\<rparr>
               client_name envs
              = Inr (run sys \<lparr>settings = \<lparr>timeout = t, poll_time = p\<rparr>, bucketname = client_name\<rparr> envs))
       \<and> Settings_init config_section (Some 5) (Some 10) = Inl AssertionError"
  using assms
  by (auto simp: Settings_init_def main_def AFKWatcher_init_def arg_or_config_def truthy_def)

theorem Settings_init_checks_timeout_witness:
  "Settings_init (default_config False) (Some 5) (Some 10) = Inl AssertionError
 \<and> main ''Linux'' (default_config False) \<lparr>arg_timeout = Some 5, arg_poll_time = Some 10\<rparr>
      ''sd-watcher-afk'' [quiet_tick 1000000 0] = Inl AssertionError
 \<and> Settings_init (default_config False) (Some 10) (Some 10) = Inr \<lparr>timeout = 10, poll_time = 10\<rparr>"
  using Settings_init_checks_timeout [of "Some 5" "default_config False" 5 "Some 10" 10 "''Linux''" "''sd-watcher-afk''" "[quiet_tick 1000000 0]"]
    Settings_init_checks_timeout [of "Some 10" "default_config False" 10 "Some 10" 10 "''Linux''" "''sd-watcher-afk''" "[quiet_tick 1000000 0]"]
  by (simp add: arg_or_config_def truthy_def)

text \<open>
  Claim C10. An argument \<open>timeout = 0\<close> (or \<open>poll_time = 0\<close>) gives the same result as no
  argument: when the constructor succeeds, the setting is the configuration's value.
  A non-zero argument is the setting of every successful construction.
\<close>

theorem zero_argument_falls_back_to_config:
  "Settings_init config_section (Some 0) poll_time_arg
     = Settings_init config_section None poll_time_arg
 \<and> Settings_init config_section timeout_arg (Some 0)
     = Settings_init config_section timeout_arg None
 \<and> (Settings_init config_section (Some 0) poll_time_arg = Inr s
      \<longrightarrow> config_section ''timeout'' = Some (timeout s))
 \<and> (Settings_init config_section timeout_arg (Some 0) = Inr s
      \<longrightarrow> config_section ''poll_time'' = Some (poll_time s))
 \<and> (t \<noteq> 0 \<and> Settings_init config_section (Some t) poll_time_arg = Inr s \<longrightarrow> timeout s = t)
 \<and> (p \<noteq> 0 \<and> Settings_init config_section timeout_arg (Some p) = Inr s \<longrightarrow> poll_time s = p)"
proof -
  have a: "Settings_init config_section (Some 0) poll_time_arg
             = Settings_init config_section None poll_time_arg"
    by (simp add: Settings_init_def arg_or_config_zero)
  have b: "Settings_init config_section timeout_arg (Some 0)
             = Settings_init config_section timeout_arg None"
    by (simp add: Settings_init_def arg_or_config_zero cong: sum.case_cong)
  have c: "config_section ''timeout'' = Some (timeout s)"
    if "Settings_init config_section (Some 0) poll_time_arg = Inr s"
    using Settings_init_Inr [OF that] by (simp add: arg_or_config_zero arg_or_config_None)
  have d: "config_section ''poll_time'' = Some (poll_time s)"
    if "Settings_init config_section timeout_arg (Some 0) = Inr s"
    using Settings_init_Inr [OF that] by (simp add: arg_or_config_zero arg_or_config_None)
  have e: "timeout s = t"
    if "t \<noteq> 0" "Settings_init config_section (Some t) poll_time_arg = Inr s"
    using Settings_init_Inr [OF that(2)] that(1) by (simp add: arg_or_config_nonzero)
  have f: "poll_time s = p"
    if "p \<noteq> 0" "Settings_init config_section timeout_arg (Some p) = Inr s"
    using Settings_init_Inr [OF that(2)] that(1) by (simp add: arg_or_config_nonzero)
  from a b c d e f show ?thesis by blast
qed

theorem zero_argument_falls_back_to_config_witness:
  "Settings_init (default_config False) (Some 0) (Some 7) = Inr \<lparr>timeout = 300, poll_time = 7\<rparr>
 \<and> Settings_init (default_config False) (Some 0) (Some 7)
     = Settings_init (default_config False) None (Some 7)
 \<and> default_config False ''timeout'' = Some 300"
  using zero_argument_falls_back_to_config [of "default_config False" "Some 7" "Some 0" "\<lparr>timeout = 300, poll_time = 7\<rparr>" 0 0]
  by (simp add: Settings_init_def arg_or_config_def truthy_def default_config_def)

section \<open>Properties of the heartbeat emitter\<close>

text \<open>Every call that the loop makes is a \<open>ping\<close> of the watcher with no duration given.\<close>

lemma ping_then_calls:
  "c \<in> set (snd (snd (ping_then a c0 r k))) \<Longrightarrow> c = c0 \<or> c \<in> set (snd (snd k))"
  by (cases r) (auto simp: ping_then_def)

lemma sleep_then_calls: "snd (snd (sleep_then r a)) = []"
  by (cases r) (simp_all add: sleep_then_def)

lemma loop_body_calls:
  assumes "c \<in> set (snd (snd (loop_body sys self afk env)))"
  shows "\<exists>a ts. c = ping self a ts None"
proof (cases "sample env")
  case (Inl e)
  with assms show ?thesis by (auto simp: loop_body_def split: if_splits)
next
  case (Inr s)
  with assms show ?thesis
    by (auto simp: loop_body_def Let_def sleep_then_calls
             split: if_splits dest!: ping_then_calls)
qed

lemma loop_from_calls:
  "entry \<in> set (snd (loop_from sys self afk envs)) \<Longrightarrow> c \<in> set (snd entry)
     \<Longrightarrow> \<exists>a ts. c = ping self a ts None"
proof (induction envs arbitrary: afk)
  case Nil
  then show ?case by simp
next
  case (Cons env envs)
  obtain r a cs where b: "loop_body sys self afk env = (r, a, cs)"
    by (cases "loop_body sys self afk env") auto
  have here: "c \<in> set cs \<Longrightarrow> \<exists>a ts. c = ping self a ts None"
    using loop_body_calls [of c sys self afk env] b by simp
  show ?case
  proof (cases r)
    case Completed
    obtain e rest where l: "loop_from sys self a envs = (e, rest)"
      by (cases "loop_from sys self a envs") auto
    from Cons.prems(1) b Completed l have "entry = (a, cs) \<or> entry \<in> set rest" by simp
    then show ?thesis
    proof
      assume "entry = (a, cs)"
      with Cons.prems(2) here show ?thesis by simp
    next
      assume "entry \<in> set rest"
      then have "entry \<in> set (snd (loop_from sys self a envs))" using l by simp
      then show ?thesis using Cons.prems(2) by (rule Cons.IH)
    qed
  next
    case ParentDied
    with Cons.prems b have "entry = (a, cs)" by simp
    with Cons.prems(2) here show ?thesis by simp
  next
    case (Raised x)
    with Cons.prems b have "entry = (a, cs)" by simp
    with Cons.prems(2) here show ?thesis by simp
  qed
qed


text \<open>
  Claim C8. \<open>ping(afk, timestamp, duration)\<close> makes one call of \<open>client.heartbeat\<close>: to the
  watcher's bucket, with an event of the given timestamp, the given duration (0 when left
  out) and the data \<open>status\<close> (\<open>afk\<close> or \<open>not-afk\<close>), \<open>app = afk\<close>, \<open>title = Idle time\<close>, with
  pulsetime \<open>timeout + poll_time\<close> and \<open>queued=True\<close>. Every heartbeat that the loop sends
  in any run is of this shape, with duration 0.
\<close>

theorem ping_submits_one_heartbeat:
  "ping self afk ts dur =
     \<lparr>hc_bucket = bucketname self,
      hc_event = \<lparr>timestamp = ts, duration = (case dur of None \<Rightarrow> 0 | Some x \<Rightarrow> x),
                  data = [''status'' \<mapsto> (if afk then ''afk'' else ''not-afk''),
                          ''app'' \<mapsto> ''afk'', ''title'' \<mapsto> ''Idle time'']\<rparr>,
      hc_pulsetime = timeout (settings self) + poll_time (settings self),
      hc_queued = True\<rparr>
 \<and> (\<forall>entry \<in> set (snd (heartbeat_loop sys self envs)). \<forall>c \<in> set (snd entry).
       hc_bucket c = bucketname self
     \<and> duration (hc_event c) = 0
     \<and> hc_status c \<in> {Some ''afk'', Some ''not-afk''}
     \<and> data (hc_event c) ''app'' = Some ''afk''
     \<and> data (hc_event c) ''title'' = Some ''Idle time''
     \<and> hc_pulsetime c = timeout (settings self) + poll_time (settings self)
     \<and> hc_queued c)"
proof (intro conjI ballI)
  show "ping self afk ts dur =
     \<lparr>hc_bucket = bucketname self,
      hc_event = \<lparr>timestamp = ts, duration = (case dur of None \<Rightarrow> 0 | Some x \<Rightarrow> x),
                  data = [''status'' \<mapsto> (if afk then ''afk'' else ''not-afk''),
                          ''app'' \<mapsto> ''afk'', ''title'' \<mapsto> ''Idle time'']\<rparr>,
      hc_pulsetime = timeout (settings self) + poll_time (settings self),
      hc_queued = True\<rparr>"
    by (simp add: ping_def)
next
  fix entry c
  assume "entry \<in> set (snd (heartbeat_loop sys self envs))" and "c \<in> set (snd entry)"
  then obtain a t where c: "c = ping self a t None"
    unfolding heartbeat_loop_def using loop_from_calls by blast
  show "hc_bucket c = bucketname self" by (simp add: c ping_def)
  show "duration (hc_event c) = 0" by (simp add: c ping_def)
  show "hc_status c \<in> {Some ''afk'', Some ''not-afk''}" by (simp add: c ping_def hc_status_def)
  show "data (hc_event c) ''app'' = Some ''afk''" by (simp add: c ping_def)
  show "data (hc_event c) ''title'' = Some ''Idle time''" by (simp add: c ping_def)
  show "hc_pulsetime c = timeout (settings self) + poll_time (settings self)"
    by (simp add: c ping_def)
  show "hc_queued c" by (simp add: c ping_def)
qed

theorem ping_submits_one_heartbeat_witness:
  "hc_pulsetime (ping example_watcher True 1000000000 None) = 305
 \<and> hc_queued (ping example_watcher True 1000000000 None)
 \<and> duration (hc_event (ping example_watcher True 1000000000 None)) = 0
 \<and> hc_status (ping example_watcher True 1000000000 None) = Some ''afk''
 \<and> snd (heartbeat_loop ''Linux'' example_watcher [quiet_tick 1000000000 310])
    = [(True, [ping example_watcher False 690000000 None,
               ping example_watcher True 1000000000 None])]"
  using ping_submits_one_heartbeat [of example_watcher True 1000000000 None "''Linux''" "[quiet_tick 1000000000 310]"]
  by (simp add: heartbeat_loop_def loop_body_def ping_then_def sleep_then_def Let_def
        quiet_tick_def example_watcher_def timedelta_seconds_def round_half_even_def
        hc_status_def)


end
